theory Spec2Isabelle
  imports Main
begin

section \<open>JavaScript values, objects and strings\<close>

text \<open>
  The values that travel through \<^verbatim>\<open>restify.js\<close>: strings and numbers of a parsed
  and validated request, and \<^verbatim>\<open>undefined\<close>. An object is a map from its own property
  names; reading a property that the object does not have gives \<^verbatim>\<open>undefined\<close>.
  Properties inherited from \<^verbatim>\<open>Object.prototype\<close> are outside this model: no field
  is assumed to be named like one of them. Strings are lists of characters; the code
  only compares them, prefixes them and cuts them at commas.
\<close>

datatype jsval = JUndefined | JStr string | JNum int

type_synonym obj = "string \<rightharpoonup> jsval"

definition lookup :: "obj \<Rightarrow> string \<Rightarrow> jsval" where
  "lookup ob k = (case ob k of None \<Rightarrow> JUndefined | Some v \<Rightarrow> v)"

text \<open>\<^verbatim>\<open>_.get(object, key, defaultValue)\<close>: the default stands in for \<^verbatim>\<open>undefined\<close>.\<close>

definition lodash_get :: "obj \<Rightarrow> string \<Rightarrow> jsval \<Rightarrow> jsval" where
  "lodash_get ob k d = (if lookup ob k = JUndefined then d else lookup ob k)"

text \<open>The only exception the builders can raise: calling \<^verbatim>\<open>split\<close> on a non-string.\<close>

datatype error = TypeError

text \<open>
  \<^verbatim>\<open>String.prototype.split\<close> with a one-character separator: the pieces between
  the separators, empty pieces included; the empty string gives one empty piece.
\<close>

fun split_from :: "char \<Rightarrow> string \<Rightarrow> string \<Rightarrow> string list" where
  "split_from sep cur [] = [rev cur]"
| "split_from sep cur (c # cs) =
     (if c = sep then rev cur # split_from sep [] cs else split_from sep (c # cur) cs)"

definition split_str :: "string \<Rightarrow> char \<Rightarrow> string list" where
  "split_str s sep = split_from sep [] s"

text \<open>\<^verbatim>\<open>Array.prototype.join\<close>, used only to characterise \<^const>\<open>split_str\<close>.\<close>

fun join_str :: "char \<Rightarrow> string list \<Rightarrow> string" where
  "join_str sep [] = []"
| "join_str sep [p] = p"
| "join_str sep (p # q # ps) = p @ sep # join_str sep (q # ps)"

section \<open>Joi schemas\<close>

text \<open>
  A Joi schema is built by a chain of calls on \<^verbatim>\<open>Joi.number()\<close> or
  \<^verbatim>\<open>Joi.string()\<close>; each call records one rule. A regular expression is kept as
  its source text.
\<close>

datatype regexp = RegExp string

datatype joi_type = NumberT | StringT

record joi =
  base :: joi_type
  integerRule :: bool
  minRule :: "int option"
  maxRule :: "int option"
  defaultRule :: "jsval option"
  regexRule :: "regexp option"
  descriptionRule :: "string option"

definition Joi_number :: joi where
  "Joi_number = \<lparr>base = NumberT, integerRule = False, minRule = None, maxRule = None,
     defaultRule = None, regexRule = None, descriptionRule = None\<rparr>"

definition Joi_string :: joi where
  "Joi_string = \<lparr>base = StringT, integerRule = False, minRule = None, maxRule = None,
     defaultRule = None, regexRule = None, descriptionRule = None\<rparr>"

definition joi_integer :: "joi \<Rightarrow> joi" where
  "joi_integer s = s\<lparr>integerRule := True\<rparr>"

definition joi_min :: "int \<Rightarrow> joi \<Rightarrow> joi" where
  "joi_min n s = s\<lparr>minRule := Some n\<rparr>"

definition joi_max :: "int \<Rightarrow> joi \<Rightarrow> joi" where
  "joi_max n s = s\<lparr>maxRule := Some n\<rparr>"

definition joi_default :: "jsval \<Rightarrow> joi \<Rightarrow> joi" where
  "joi_default d s = s\<lparr>defaultRule := Some d\<rparr>"

definition joi_regex :: "regexp \<Rightarrow> joi \<Rightarrow> joi" where
  "joi_regex r s = s\<lparr>regexRule := Some r\<rparr>"

definition joi_description :: "string \<Rightarrow> joi \<Rightarrow> joi" where
  "joi_description d s = s\<lparr>descriptionRule := Some d\<rparr>"

type_synonym schema = "string \<rightharpoonup> joi"

text \<open>
  The rule of the validation layer that the handlers rely on: the query object a handler
  sees is the validated one, in which a key the request did not supply has the default
  of its schema (when the schema declares one).
\<close>

definition apply_defaults :: "schema \<Rightarrow> obj \<Rightarrow> obj" where
  "apply_defaults sch q =
     (\<lambda>k. case q k of
            Some v \<Rightarrow> Some v
          | None \<Rightarrow> (case sch k of None \<Rightarrow> None | Some s \<Rightarrow> defaultRule s))"

text \<open>\<^verbatim>\<open>_JoiLimit\<close>, \<^verbatim>\<open>_JoiOffset\<close> and \<^verbatim>\<open>_JoiFields\<close>.\<close>

definition JoiLimit :: joi where
  "JoiLimit =
     joi_description ''limit. min = 1, max = 1000''
       (joi_default (JNum 10) (joi_max 1000 (joi_min 1 (joi_integer Joi_number))))"

definition JoiOffset :: joi where
  "JoiOffset =
     joi_description ''offset. min = 0''
       (joi_default (JNum 0) (joi_min 0 (joi_integer Joi_number)))"

definition JoiFields :: joi where
  "JoiFields =
     joi_description
       (''You can include or exclude fields in response. Fields should be separated by colon. '' @
        ''To exclude field, just add in front of it -, for example: <code>-firstName,-lastname</code>'')
       (joi_default (JStr '''') (joi_regex (RegExp ''^[a-zA-Z0-9_,]+$'') Joi_string))"

section \<open>Requests, the store and the model\<close>

record 'p request =
  params :: obj
  query :: obj
  payload :: 'p

text \<open>
  The calls on the mongoose model that the handlers make, with their arguments. Each
  returns a promise; its outcome is \<open>Inl err\<close> (rejected) or \<open>Inr v\<close> (fulfilled).
\<close>

record update_options =
  new :: bool

datatype 'p store_call =
    Save 'p
  | FindById jsval obj
  | FindByIdAndUpdate jsval 'p update_options
  | Remove obj
  | Count obj
  | Find obj obj jsval jsval

record ('p, 'e, 'v) model =
  joiValidate :: schema
  store :: "'p store_call \<Rightarrow> 'e + 'v"

text \<open>
  The helpers of \<^verbatim>\<open>lib/util\<close> live in another module; they are parameters of
  every function that calls them.
\<close>

record 'm util =
  getModelName :: "'m \<Rightarrow> string"
  getAllModelFields :: "'m \<Rightarrow> string list"
  getSchemaModelFields :: "'m \<Rightarrow> string list"
  getMongoIdRegexp :: regexp

section \<open>The projection and filter builders\<close>

text \<open>\<^verbatim>\<open>urlFieldsStr.split(',').filter(value => value)\<close>: the non-empty pieces.\<close>

definition urlFields_of :: "string \<Rightarrow> string list" where
  "urlFields_of urlFieldsStr = filter (\<lambda>v. v \<noteq> []) (split_str urlFieldsStr CHR '','')"

text \<open>The body of the \<^verbatim>\<open>forEach\<close> callback of \<^verbatim>\<open>_getSelectObjFromFieldsInUrl\<close>.\<close>

definition select_field :: "string list \<Rightarrow> string \<Rightarrow> obj \<Rightarrow> obj" where
  "select_field urlFields field result =
     (if field \<in> set urlFields then result(field \<mapsto> JNum 1)
      else if (CHR ''-'' # field) \<in> set urlFields then result(field \<mapsto> JNum 0)
      else result)"

definition getSelectObjFromFieldsInUrl ::
  "('p, 'e, 'v) model util \<Rightarrow> ('p, 'e, 'v) model \<Rightarrow> 'p request \<Rightarrow> error + obj" where
  "getSelectObjFromFieldsInUrl U Model request =
     (case lodash_get (query request) ''fields'' (JStr '''') of
        JStr urlFieldsStr \<Rightarrow>
          (let urlFields = urlFields_of urlFieldsStr;
               result = Map.empty
           in if length urlFields = 0 then Inr result
              else Inr (fold (select_field urlFields) (getAllModelFields U Model) result))
      | _ \<Rightarrow> Inl TypeError)"

text \<open>The body of the \<^verbatim>\<open>forEach\<close> callback of \<^verbatim>\<open>_getQueryObjFromFieldsInUrl\<close>.\<close>

definition query_field :: "obj \<Rightarrow> string \<Rightarrow> obj \<Rightarrow> obj" where
  "query_field q field queryDb =
     (let fieldValue = lookup q field
      in if fieldValue = JStr '''' \<or> fieldValue = JUndefined then queryDb
         else queryDb(field \<mapsto> lookup q field))"

definition getQueryObjFromFieldsInUrl ::
  "('p, 'e, 'v) model util \<Rightarrow> ('p, 'e, 'v) model \<Rightarrow> 'p request \<Rightarrow> obj" where
  "getQueryObjFromFieldsInUrl U Model request =
     fold (query_field (query request)) (getSchemaModelFields U Model) Map.empty"

section \<open>Handlers\<close>

text \<open>
  What a handler does is recorded as a trace: the call it makes on the store, each call
  of \<^verbatim>\<open>reply\<close> and each call of \<^verbatim>\<open>logger.error\<close>, in order. A handler that
  throws before it reaches the store returns the exception instead.
\<close>

datatype ('p, 'e, 'v) event =
    is_StoreCall: StoreCall "'p store_call"
  | is_Reply: Reply "'e + 'v"
  | is_LoggerError: LoggerError 'e

text \<open>
  \<^verbatim>\<open>promise.then(reply).catch((err) => { reply(err); logger.error(err) })\<close> on a
  settled promise; \<^verbatim>\<open>reply\<close> itself is taken not to throw.
\<close>

definition then_reply_catch :: "'e + 'v \<Rightarrow> ('p, 'e, 'v) event list" where
  "then_reply_catch outcome =
     (case outcome of
        Inr v \<Rightarrow> [Reply (Inr v)]
      | Inl err \<Rightarrow> [Reply (Inl err), LoggerError err])"

definition call_store :: "('p, 'e, 'v) model \<Rightarrow> 'p store_call \<Rightarrow> ('p, 'e, 'v) event list" where
  "call_store Model c = StoreCall c # then_reply_catch (store Model c)"

type_synonym ('p, 'e, 'v) handler_fn = "'p request \<Rightarrow> error + ('p, 'e, 'v) event list"

definition postHandler :: "('p, 'e, 'v) model \<Rightarrow> ('p, 'e, 'v) handler_fn" where
  "postHandler Model request =
     (let data = payload request
      in Inr (call_store Model (Save data)))"

definition getHandler ::
  "('p, 'e, 'v) model util \<Rightarrow> ('p, 'e, 'v) model \<Rightarrow> ('p, 'e, 'v) handler_fn" where
  "getHandler U Model request =
     (let id = lookup (params request) ''id''
      in case getSelectObjFromFieldsInUrl U Model request of
           Inl exn \<Rightarrow> Inl exn
         | Inr select \<Rightarrow> Inr (call_store Model (FindById id select)))"

definition putHandler :: "('p, 'e, 'v) model \<Rightarrow> ('p, 'e, 'v) handler_fn" where
  "putHandler Model request =
     (let id = lookup (params request) ''id'';
          data = payload request;
          options = \<lparr>new = True\<rparr>
      in Inr (call_store Model (FindByIdAndUpdate id data options)))"

definition deleteHandler :: "('p, 'e, 'v) model \<Rightarrow> ('p, 'e, 'v) handler_fn" where
  "deleteHandler Model request =
     (let id = lookup (params request) ''id''
      in Inr (call_store Model (Remove [''_id'' \<mapsto> id])))"

definition countHandler ::
  "('p, 'e, 'v) model util \<Rightarrow> ('p, 'e, 'v) model \<Rightarrow> ('p, 'e, 'v) handler_fn" where
  "countHandler U Model request =
     (let queryObj = getQueryObjFromFieldsInUrl U Model request
      in Inr (call_store Model (Count queryObj)))"

definition listHandler ::
  "('p, 'e, 'v) model util \<Rightarrow> ('p, 'e, 'v) model \<Rightarrow> ('p, 'e, 'v) handler_fn" where
  "listHandler U Model request =
     (let limit = lookup (query request) ''limit'';
          offset = lookup (query request) ''offset''
      in case getSelectObjFromFieldsInUrl U Model request of
           Inl exn \<Rightarrow> Inl exn
         | Inr select \<Rightarrow> Inr (call_store Model (Find Map.empty select limit offset)))"

definition findHandler ::
  "('p, 'e, 'v) model util \<Rightarrow> ('p, 'e, 'v) model \<Rightarrow> ('p, 'e, 'v) handler_fn" where
  "findHandler U Model request =
     (let limit = lookup (query request) ''limit'';
          offset = lookup (query request) ''offset'';
          queryObj = getQueryObjFromFieldsInUrl U Model request
      in case getSelectObjFromFieldsInUrl U Model request of
           Inl exn \<Rightarrow> Inl exn
         | Inr select \<Rightarrow> Inr (call_store Model (Find queryObj select limit offset)))"

section \<open>Route descriptors\<close>

record validate =
  validate_params :: "schema option"
  validate_query :: "schema option"
  validate_payload :: "schema option"

record config =
  description :: string
  tags :: "string list"
  validate :: validate

record ('p, 'e, 'v) route =
  path :: string
  http_method :: string
  handler :: "('p, 'e, 'v) handler_fn"
  config :: config

text \<open>\<^verbatim>\<open>_.assign(target, source1, source2)\<close>: later sources overwrite earlier keys.\<close>

definition assign :: "('k \<rightharpoonup> 'a) \<Rightarrow> ('k \<rightharpoonup> 'a) \<Rightarrow> ('k \<rightharpoonup> 'a) \<Rightarrow> ('k \<rightharpoonup> 'a)" where
  "assign target source1 source2 = (target ++ source1) ++ source2"

definition postRoute ::
  "('p, 'e, 'v) model util \<Rightarrow> ('p, 'e, 'v) model \<Rightarrow> ('p, 'e, 'v) route" where
  "postRoute U Model =
     (let modelName = getModelName U Model
      in \<lparr>path = ''/'' @ modelName, http_method = ''POST'', handler = postHandler Model,
          config = \<lparr>description = ''Create new '' @ modelName, tags = [''api''],
            validate = \<lparr>validate_params = None, validate_query = None,
              validate_payload = Some (joiValidate Model)\<rparr>\<rparr>\<rparr>)"

definition getRoute ::
  "('p, 'e, 'v) model util \<Rightarrow> ('p, 'e, 'v) model \<Rightarrow> ('p, 'e, 'v) route" where
  "getRoute U Model =
     (let modelName = getModelName U Model;
          idRegexp = getMongoIdRegexp U
      in \<lparr>path = ''/'' @ modelName @ ''/{id}'', http_method = ''GET'',
          handler = getHandler U Model,
          config = \<lparr>description = ''Get '' @ modelName @ '' instance by id'', tags = [''api''],
            validate = \<lparr>validate_params = Some [''id'' \<mapsto> joi_regex idRegexp Joi_string],
              validate_query = Some [''fields'' \<mapsto> JoiFields],
              validate_payload = None\<rparr>\<rparr>\<rparr>)"

definition putRoute ::
  "('p, 'e, 'v) model util \<Rightarrow> ('p, 'e, 'v) model \<Rightarrow> ('p, 'e, 'v) route" where
  "putRoute U Model =
     (let modelName = getModelName U Model;
          idRegexp = getMongoIdRegexp U
      in \<lparr>path = ''/'' @ modelName @ ''/{id}'', http_method = ''PUT'',
          handler = putHandler Model,
          config = \<lparr>description = ''Update '' @ modelName @ '' instance by id'', tags = [''api''],
            validate = \<lparr>validate_params = Some [''id'' \<mapsto> joi_regex idRegexp Joi_string],
              validate_query = None,
              validate_payload = Some (joiValidate Model)\<rparr>\<rparr>\<rparr>)"

definition deleteRoute ::
  "('p, 'e, 'v) model util \<Rightarrow> ('p, 'e, 'v) model \<Rightarrow> ('p, 'e, 'v) route" where
  "deleteRoute U Model =
     (let modelName = getModelName U Model;
          idRegexp = getMongoIdRegexp U
      in \<lparr>path = ''/'' @ modelName @ ''/{id}'', http_method = ''DELETE'',
          handler = deleteHandler Model,
          config = \<lparr>description = ''Delete '' @ modelName @ '' instance by id'', tags = [''api''],
            validate = \<lparr>validate_params = Some [''id'' \<mapsto> joi_regex idRegexp Joi_string],
              validate_query = None, validate_payload = None\<rparr>\<rparr>\<rparr>)"

definition countRoute ::
  "('p, 'e, 'v) model util \<Rightarrow> ('p, 'e, 'v) model \<Rightarrow> ('p, 'e, 'v) route" where
  "countRoute U Model =
     (let modelName = getModelName U Model
      in \<lparr>path = ''/'' @ modelName @ ''/count'', http_method = ''GET'',
          handler = countHandler U Model,
          config = \<lparr>description = ''Return count instances in '' @ modelName @ '' model'',
            tags = [''api''],
            validate = \<lparr>validate_params = None, validate_query = Some (joiValidate Model),
              validate_payload = None\<rparr>\<rparr>\<rparr>)"

definition listRoute ::
  "('p, 'e, 'v) model util \<Rightarrow> ('p, 'e, 'v) model \<Rightarrow> ('p, 'e, 'v) route" where
  "listRoute U Model =
     (let modelName = getModelName U Model
      in \<lparr>path = ''/'' @ modelName @ ''/list'', http_method = ''GET'',
          handler = listHandler U Model,
          config = \<lparr>description = ''Return list of '' @ modelName @ '' instances'',
            tags = [''api''],
            validate = \<lparr>validate_params = None,
              validate_query =
                Some [''limit'' \<mapsto> JoiLimit, ''offset'' \<mapsto> JoiOffset, ''fields'' \<mapsto> JoiFields],
              validate_payload = None\<rparr>\<rparr>\<rparr>)"

definition findRoute ::
  "('p, 'e, 'v) model util \<Rightarrow> ('p, 'e, 'v) model \<Rightarrow> ('p, 'e, 'v) route" where
  "findRoute U Model =
     (let modelName = getModelName U Model
      in \<lparr>path = ''/'' @ modelName @ ''/find'', http_method = ''GET'',
          handler = findHandler U Model,
          config = \<lparr>description = ''Return list of '' @ modelName @ '' instances'',
            tags = [''api''],
            validate = \<lparr>validate_params = None,
              validate_query =
                Some (assign Map.empty (joiValidate Model)
                  [''limit'' \<mapsto> JoiLimit, ''offset'' \<mapsto> JoiOffset, ''fields'' \<mapsto> JoiFields]),
              validate_payload = None\<rparr>\<rparr>\<rparr>)"

definition restify ::
  "('p, 'e, 'v) model util \<Rightarrow> ('p, 'e, 'v) model \<Rightarrow> ('p, 'e, 'v) route list" where
  "restify U Model =
     [postRoute U Model,
      getRoute U Model,
      putRoute U Model,
      deleteRoute U Model,
      countRoute U Model,
      listRoute U Model,
      findRoute U Model]"

section \<open>The validation layer in front of a handler\<close>

text \<open>
  The routing framework validates \<^verbatim>\<open>request.query\<close> against the route's
  \<^verbatim>\<open>config.validate.query\<close> and hands the handler the validated query, with the
  defaults filled in. Only that part of the framework is modelled here; a request that
  the schema rejects never reaches the handler.
\<close>

definition validated_query :: "config \<Rightarrow> obj \<Rightarrow> obj" where
  "validated_query c q =
     (case validate_query (validate c) of
        None \<Rightarrow> q
      | Some sch \<Rightarrow> apply_defaults sch q)"

definition dispatch :: "('p, 'e, 'v) route \<Rightarrow> ('p, 'e, 'v) handler_fn" where
  "dispatch r request =
     handler r (request\<lparr>query := validated_query (config r) (query request)\<rparr>)"

section \<open>The document store\<close>

text \<open>
  Modelled from the spec: the storage client is an external collaborator whose contract
  is \<^verbatim>\<open>updateById(id, data, {returnUpdated:true}) -> record\<close>, a partial update of the
  record at the identifier. A collection maps identifiers to records; the fields of \<open>data\<close>
  are written over the record, the others are kept. The option \<^verbatim>\<open>new\<close> chooses the
  state that is returned: the record after the update when it is true, the record before
  when it is false. An identifier with no record gives \<^verbatim>\<open>null\<close> (\<open>None\<close>).
\<close>

type_synonym collection = "string \<rightharpoonup> obj"

definition findByIdAndUpdate ::
  "collection \<Rightarrow> jsval \<Rightarrow> obj \<Rightarrow> update_options \<Rightarrow> obj option \<times> collection" where
  "findByIdAndUpdate db ident data options =
     (case ident of
        JStr i \<Rightarrow>
          (case db i of
             None \<Rightarrow> (None, db)
           | Some doc \<Rightarrow>
               (let updated = doc ++ data
                in (Some (if new options then updated else doc), db(i \<mapsto> updated))))
      | _ \<Rightarrow> (None, db))"

section \<open>A sample model\<close>

text \<open>The model of the specification's scenarios: name "widget", fields title and price.\<close>

definition widget :: "(obj, string, obj option) model" where
  "widget = \<lparr>joiValidate = [''title'' \<mapsto> Joi_string, ''price'' \<mapsto> Joi_number],
     store = (\<lambda>c. Inl ''down'')\<rparr>"

definition fields_request :: "string \<Rightarrow> obj request" where
  "fields_request s = \<lparr>params = Map.empty, query = [''fields'' \<mapsto> JStr s], payload = Map.empty\<rparr>"

definition filter_request :: "obj request" where
  "filter_request = \<lparr>params = Map.empty,
     query = [''title'' \<mapsto> JStr ''Lamp'', ''price'' \<mapsto> JStr '''', ''colour'' \<mapsto> JStr ''red''],
     payload = Map.empty\<rparr>"

text \<open>
  A widget model on a store that holds one record and answers \<open>findByIdAndUpdate\<close>
  as the document store does, and a model whose own schema declares a field named limit.
\<close>

definition widget_db :: collection where
  "widget_db = [''w1'' \<mapsto> [''title'' \<mapsto> JStr ''Lamp'', ''price'' \<mapsto> JNum 5]]"

definition stored_widget :: "(obj, string, obj option) model" where
  "stored_widget = \<lparr>joiValidate = [''title'' \<mapsto> Joi_string, ''price'' \<mapsto> Joi_number],
     store = (\<lambda>c. case c of
                FindByIdAndUpdate ident data opts \<Rightarrow>
                  Inr (fst (findByIdAndUpdate widget_db ident data opts))
              | _ \<Rightarrow> Inl ''unsupported'')\<rparr>"

definition put_request :: "obj request" where
  "put_request = \<lparr>params = [''id'' \<mapsto> JStr ''w1''], query = Map.empty,
     payload = [''price'' \<mapsto> JNum 7]\<rparr>"

definition limit_model :: "(obj, string, obj option) model" where
  "limit_model = \<lparr>joiValidate = [''limit'' \<mapsto> Joi_string, ''title'' \<mapsto> Joi_string],
     store = (\<lambda>c. Inl ''down'')\<rparr>"

definition widget_util :: "(obj, string, obj option) model util" where
  "widget_util = \<lparr>getModelName = (\<lambda>m. ''widget''),
     getAllModelFields = (\<lambda>m. [''title'', ''price'']),
     getSchemaModelFields = (\<lambda>m. [''title'', ''price'']),
     getMongoIdRegexp = RegExp ''^[0-9a-fA-F]{24}$''\<rparr>"

section \<open>Properties of the string helpers\<close>

lemma split_from_nonempty: "split_from sep cur s \<noteq> []"
  by (induction s arbitrary: cur) auto

lemma join_str_Cons: "ps \<noteq> [] \<Longrightarrow> join_str sep (p # ps) = p @ sep # join_str sep ps"
  by (cases ps) auto

lemma join_split_from: "join_str sep (split_from sep cur s) = rev cur @ s"
  by (induction s arbitrary: cur) (auto simp: join_str_Cons split_from_nonempty)

text \<open>Joining the pieces with the separator gives the string back.\<close>

lemma join_split_str: "join_str sep (split_str s sep) = s"
  by (simp add: split_str_def join_split_from)

lemma split_from_no_sep:
  "p \<in> set (split_from sep cur s) \<Longrightarrow> sep \<notin> set cur \<Longrightarrow> sep \<notin> set p"
proof (induction s arbitrary: cur)
  case Nil
  then show ?case by auto
next
  case (Cons c cs)
  show ?case
  proof (cases "c = sep")
    case True
    with Cons.prems have "p = rev cur \<or> p \<in> set (split_from sep [] cs)" by simp
    then show ?thesis using Cons.IH [of "[]"] Cons.prems(2) by auto
  next
    case False
    with Cons.prems have "p \<in> set (split_from sep (c # cur) cs)" by simp
    then show ?thesis using Cons.IH [of "c # cur"] Cons.prems(2) False by auto
  qed
qed

text \<open>No piece contains the separator.\<close>

lemma split_str_no_sep: "p \<in> set (split_str s sep) \<Longrightarrow> sep \<notin> set p"
  by (auto simp: split_str_def dest: split_from_no_sep)

lemma urlFields_of_nonempty: "t \<in> set (urlFields_of s) \<Longrightarrow> t \<noteq> []"
  by (simp add: urlFields_of_def)

section \<open>Properties of the builders\<close>

text \<open>What the two \<^verbatim>\<open>forEach\<close> loops leave at a key, from any starting object.\<close>

lemma fold_select_field:
  "fold (select_field toks) F m f =
     (if f \<in> set F \<and> f \<in> set toks then Some (JNum 1)
      else if f \<in> set F \<and> (CHR ''-'' # f) \<in> set toks then Some (JNum 0)
      else m f)"
  by (induction F arbitrary: m) (auto simp: select_field_def)

lemma fold_query_field:
  "fold (query_field q) F m k =
     (if k \<in> set F \<and> lookup q k \<noteq> JStr '''' \<and> lookup q k \<noteq> JUndefined
      then Some (lookup q k) else m k)"
  by (induction F arbitrary: m) (auto simp: query_field_def Let_def)

text \<open>The early exit on an empty token list returns what the loop would have built.\<close>

lemma select_string:
  assumes "lodash_get (query request) ''fields'' (JStr '''') = JStr s"
  shows "getSelectObjFromFieldsInUrl U Model request =
           Inr (fold (select_field (urlFields_of s)) (getAllModelFields U Model) Map.empty)"
proof (cases "urlFields_of s")
  case Nil
  have "fold (select_field []) F m = m" for F and m :: obj
    by (induction F) (auto simp: select_field_def)
  with Nil assms show ?thesis
    by (simp add: getSelectObjFromFieldsInUrl_def)
next
  case (Cons t ts)
  with assms show ?thesis
    by (simp add: getSelectObjFromFieldsInUrl_def)
qed

text \<open>Evaluation of the sample inputs.\<close>

lemma fields_request_get: "lodash_get (query (fields_request s)) ''fields'' (JStr '''') = JStr s"
  by (simp add: fields_request_def lodash_get_def lookup_def)

lemma tokens_title_price: "urlFields_of ''title,-price,colour'' = [''title'', ''-price'', ''colour'']"
  by (simp add: urlFields_of_def split_str_def)

lemma tokens_title_both: "urlFields_of ''title,-title'' = [''title'', ''-title'']"
  by (simp add: urlFields_of_def split_str_def)

lemma widget_fields: "getAllModelFields widget_util widget = [''title'', ''price'']"
  by (simp add: widget_util_def)

lemma widget_schema_fields: "getSchemaModelFields widget_util widget = [''title'', ''price'']"
  by (simp add: widget_util_def)

subsection \<open>The projection map\<close>

text \<open>
  C1, as amended. For every declared field list (whatever \<open>getAllModelFields\<close> returns)
  and every \<open>fields\<close> string \<open>s\<close>, \<open>_getSelectObjFromFieldsInUrl\<close> returns a map whose
  keys are exactly the declared fields \<open>f\<close> for which the token \<open>f\<close> or the token
  \<open>-f\<close> occurs in \<open>s\<close>; a declared field whose bare token occurs is mapped to 1, and
  a declared field whose token \<open>-f\<close> occurs while the bare token \<open>f\<close> does not is
  mapped to 0. Tokens whose base name is not declared leave no key.
\<close>

theorem select_projection:
  assumes "lodash_get (query request) ''fields'' (JStr '''') = JStr s"
  shows "\<exists>m. getSelectObjFromFieldsInUrl U Model request = Inr m \<and>
    (\<forall>f. (f \<in> dom m \<longleftrightarrow>
            f \<in> set (getAllModelFields U Model) \<and>
            (f \<in> set (urlFields_of s) \<or> (CHR ''-'' # f) \<in> set (urlFields_of s))) \<and>
         (f \<in> set (getAllModelFields U Model) \<and> f \<in> set (urlFields_of s)
            \<longrightarrow> m f = Some (JNum 1)) \<and>
         (f \<in> set (getAllModelFields U Model) \<and> (CHR ''-'' # f) \<in> set (urlFields_of s) \<and>
          f \<notin> set (urlFields_of s)
            \<longrightarrow> m f = Some (JNum 0)))"
  unfolding select_string [OF assms]
  by (auto simp: fold_select_field dom_def)

text \<open>
  The scenario of the specification with an undeclared token added: over the fields title
  and price, \<open>fields=title,-price,colour\<close> gives title 1 and price 0, and no key for
  colour.
\<close>

theorem select_projection_witness:
  "lodash_get (query (fields_request ''title,-price,colour'')) ''fields'' (JStr '''') = JStr ''title,-price,colour'' \<and>
   (\<exists>m. getSelectObjFromFieldsInUrl widget_util widget (fields_request ''title,-price,colour'') = Inr m \<and>
        m ''title'' = Some (JNum 1) \<and> m ''price'' = Some (JNum 0) \<and> ''colour'' \<notin> dom m)"
proof -
  have h: "lodash_get (query (fields_request ''title,-price,colour'')) ''fields'' (JStr '''') = JStr ''title,-price,colour''"
    by (rule fields_request_get)
  from select_projection [OF h, of widget_util widget]
  obtain m where m: "getSelectObjFromFieldsInUrl widget_util widget (fields_request ''title,-price,colour'') = Inr m"
    and at: "\<And>f. (f \<in> dom m \<longleftrightarrow>
            f \<in> set (getAllModelFields widget_util widget) \<and>
            (f \<in> set (urlFields_of ''title,-price,colour'') \<or> (CHR ''-'' # f) \<in> set (urlFields_of ''title,-price,colour''))) \<and>
         (f \<in> set (getAllModelFields widget_util widget) \<and> f \<in> set (urlFields_of ''title,-price,colour'')
            \<longrightarrow> m f = Some (JNum 1)) \<and>
         (f \<in> set (getAllModelFields widget_util widget) \<and>
          (CHR ''-'' # f) \<in> set (urlFields_of ''title,-price,colour'') \<and>
          f \<notin> set (urlFields_of ''title,-price,colour'')
            \<longrightarrow> m f = Some (JNum 0))"
    by blast
  have "m ''title'' = Some (JNum 1)"
    using at [of "''title''"] by (simp add: widget_fields tokens_title_price)
  moreover have "m ''price'' = Some (JNum 0)"
    using at [of "''price''"] by (simp add: widget_fields tokens_title_price)
  moreover have "''colour'' \<notin> dom m"
    using at [of "''colour''"] by (simp add: widget_fields tokens_title_price)
  ultimately show ?thesis using h m by blast
qed

text \<open>
  C1 as the specification states it fails when a declared field occurs both bare and
  prefixed: with the field title declared and \<open>fields=title,-title\<close>, the prefixed
  token \<open>-title\<close> has a declared base name, yet title is mapped to 1, not to 0.
\<close>

theorem select_projection_counterexample:
  "''title'' \<in> set (getAllModelFields widget_util widget) \<and>
   ''-title'' \<in> set (urlFields_of ''title,-title'') \<and>
   getSelectObjFromFieldsInUrl widget_util widget (fields_request ''title,-title'')
     = Inr [''title'' \<mapsto> JNum 1] \<and>
   [''title'' \<mapsto> JNum 1] ''title'' \<noteq> Some (JNum 0)"
  by (simp add: select_string [OF fields_request_get] widget_fields tokens_title_both
        select_field_def)

text \<open>
  C9. When the \<open>fields\<close> string holds both the bare token \<open>f\<close> and the token \<open>-f\<close> of
  a declared field \<open>f\<close>, the projection map sends \<open>f\<close> to 1: the inclusion branch is
  tested first.
\<close>

theorem select_include_precedence:
  assumes "lodash_get (query request) ''fields'' (JStr '''') = JStr s"
    and "f \<in> set (getAllModelFields U Model)"
    and "f \<in> set (urlFields_of s)"
    and "(CHR ''-'' # f) \<in> set (urlFields_of s)"
  shows "\<exists>m. getSelectObjFromFieldsInUrl U Model request = Inr m \<and> m f = Some (JNum 1)"
  using assms(2,3) by (simp add: select_string [OF assms(1)] fold_select_field)

theorem select_include_precedence_witness:
  "lodash_get (query (fields_request ''title,-title'')) ''fields'' (JStr '''') = JStr ''title,-title'' \<and>
   ''title'' \<in> set (getAllModelFields widget_util widget) \<and>
   ''title'' \<in> set (urlFields_of ''title,-title'') \<and>
   ''-title'' \<in> set (urlFields_of ''title,-title'') \<and>
   (\<exists>m. getSelectObjFromFieldsInUrl widget_util widget (fields_request ''title,-title'') = Inr m \<and>
        m ''title'' = Some (JNum 1))"
proof -
  have h1: "lodash_get (query (fields_request ''title,-title'')) ''fields'' (JStr '''') = JStr ''title,-title''"
    by (rule fields_request_get)
  have h2: "''title'' \<in> set (getAllModelFields widget_util widget)"
    by (simp add: widget_fields)
  have h3: "''title'' \<in> set (urlFields_of ''title,-title'')"
    by (simp add: tokens_title_both)
  have h4: "(CHR ''-'' # ''title'') \<in> set (urlFields_of ''title,-title'')"
    by (simp add: tokens_title_both)
  from select_include_precedence [OF h1 h2 h3 h4] h1 h2 h3 h4 show ?thesis by simp
qed

subsection \<open>The filter map\<close>

text \<open>
  C2. For every declared field list (whatever \<open>getSchemaModelFields\<close> returns) and every
  query object, the map built by \<open>_getQueryObjFromFieldsInUrl\<close> has the key \<open>k\<close> if and
  only if \<open>k\<close> is declared and the query holds a value under \<open>k\<close> that is neither
  \<open>undefined\<close> nor the empty string; the value stored is the query's own, unchanged.
\<close>

theorem query_filter:
  "(k \<in> dom (getQueryObjFromFieldsInUrl U Model request) \<longleftrightarrow>
      k \<in> set (getSchemaModelFields U Model) \<and>
      lookup (query request) k \<noteq> JUndefined \<and> lookup (query request) k \<noteq> JStr '''') \<and>
   (k \<in> dom (getQueryObjFromFieldsInUrl U Model request) \<longrightarrow>
      getQueryObjFromFieldsInUrl U Model request k = query request k)"
  by (auto simp: getQueryObjFromFieldsInUrl_def fold_query_field dom_def lookup_def
           split: option.splits if_splits)

text \<open>
  The scenario of the specification: the query \<open>{title: "Lamp", price: ""}\<close>, here with
  an undeclared colour as well, over the fields title and price gives \<open>{title: "Lamp"}\<close>.
\<close>

theorem query_filter_witness:
  "getQueryObjFromFieldsInUrl widget_util widget filter_request ''title'' = Some (JStr ''Lamp'') \<and>
   ''price'' \<notin> dom (getQueryObjFromFieldsInUrl widget_util widget filter_request) \<and>
   ''colour'' \<notin> dom (getQueryObjFromFieldsInUrl widget_util widget filter_request)"
  using query_filter [of "''title''" widget_util widget filter_request]
    query_filter [of "''price''" widget_util widget filter_request]
    query_filter [of "''colour''" widget_util widget filter_request]
  by (simp add: widget_schema_fields filter_request_def lookup_def)

subsection \<open>Keys of both maps are declared fields\<close>

text \<open>
  C8. For every request whose \<open>fields\<close> parameter is a string or absent, both builders
  return a map and raise nothing; every key of the projection map is one of the fields
  that \<open>getAllModelFields\<close> declares, and every key of the filter map is one of the
  fields that \<open>getSchemaModelFields\<close> declares. Tokens and query parameters outside
  these lists leave no key.
\<close>

theorem builder_keys_declared:
  assumes "lodash_get (query request) ''fields'' (JStr '''') = JStr s"
  shows "(\<exists>m. getSelectObjFromFieldsInUrl U Model request = Inr m \<and>
              dom m \<subseteq> set (getAllModelFields U Model)) \<and>
         dom (getQueryObjFromFieldsInUrl U Model request) \<subseteq> set (getSchemaModelFields U Model)"
proof -
  have "dom (fold (select_field (urlFields_of s)) (getAllModelFields U Model) Map.empty)
          \<subseteq> set (getAllModelFields U Model)"
    by (auto simp: fold_select_field split: if_splits)
  moreover have "dom (getQueryObjFromFieldsInUrl U Model request)
          \<subseteq> set (getSchemaModelFields U Model)"
    by (auto simp: getQueryObjFromFieldsInUrl_def fold_query_field split: if_splits)
  ultimately show ?thesis
    by (simp add: select_string [OF assms])
qed

theorem builder_keys_declared_witness:
  "lodash_get (query (fields_request ''title,-price,colour'')) ''fields'' (JStr '''')
     = JStr ''title,-price,colour'' \<and>
   (\<exists>m. getSelectObjFromFieldsInUrl widget_util widget (fields_request ''title,-price,colour'') = Inr m \<and>
        dom m \<subseteq> {''title'', ''price''}) \<and>
   dom (getQueryObjFromFieldsInUrl widget_util widget (fields_request ''title,-price,colour''))
     \<subseteq> {''title'', ''price''}"
  using builder_keys_declared [OF fields_request_get, of widget_util widget]
  by (simp add: widget_fields widget_schema_fields fields_request_get)

section \<open>Properties of the route descriptors\<close>

text \<open>
  C3. For every model, \<open>restify\<close> returns seven descriptors, in this order:
  POST /name, GET /name/{id}, PUT /name/{id}, DELETE /name/{id}, GET /name/count,
  GET /name/list, GET /name/find, where name is what \<open>getModelName\<close> returns.
\<close>

theorem restify_routes:
  "map (\<lambda>r. (http_method r, path r)) (restify U Model) =
     [(''POST'', ''/'' @ getModelName U Model),
      (''GET'', ''/'' @ getModelName U Model @ ''/{id}''),
      (''PUT'', ''/'' @ getModelName U Model @ ''/{id}''),
      (''DELETE'', ''/'' @ getModelName U Model @ ''/{id}''),
      (''GET'', ''/'' @ getModelName U Model @ ''/count''),
      (''GET'', ''/'' @ getModelName U Model @ ''/list''),
      (''GET'', ''/'' @ getModelName U Model @ ''/find'')] \<and>
   length (restify U Model) = 7"
  by (simp add: restify_def postRoute_def getRoute_def putRoute_def deleteRoute_def
        countRoute_def listRoute_def findRoute_def Let_def)

text \<open>
  C4. For every model, the second route of \<open>restify\<close> is the GET /name/{id} route, and
  the schema it attaches to the path parameter \<open>id\<close> is a Joi string whose only rule is
  the regular expression that \<open>getMongoIdRegexp\<close> supplies.
\<close>

theorem getRoute_id_schema:
  "restify U Model ! 1 = getRoute U Model \<and>
   http_method (getRoute U Model) = ''GET'' \<and>
   path (getRoute U Model) = ''/'' @ getModelName U Model @ ''/{id}'' \<and>
   validate_params (validate (config (getRoute U Model)))
     = Some [''id'' \<mapsto> joi_regex (getMongoIdRegexp U) Joi_string] \<and>
   joi_regex (getMongoIdRegexp U) Joi_string
     = \<lparr>base = StringT, integerRule = False, minRule = None, maxRule = None,
        defaultRule = None, regexRule = Some (getMongoIdRegexp U), descriptionRule = None\<rparr>"
  by (simp add: restify_def getRoute_def Let_def joi_regex_def Joi_string_def)

text \<open>
  C10. For every model, the query schema of the find route has the pagination and
  projection schemas under \<open>limit\<close>, \<open>offset\<close> and \<open>fields\<close>, whatever the model's own
  schema declares under these names; every other key has the model's entry.
\<close>

theorem findRoute_query_schema:
  "validate_query (validate (config (findRoute U Model))) =
     Some (\<lambda>k. if k = ''limit'' then Some JoiLimit
               else if k = ''offset'' then Some JoiOffset
               else if k = ''fields'' then Some JoiFields
               else joiValidate Model k)"
  by (auto simp: findRoute_def Let_def assign_def map_add_def fun_eq_iff)

text \<open>
  A model whose schema declares a string field named limit: in the find route's query
  schema the key limit holds the pagination schema, and title keeps the model's entry.
\<close>

theorem findRoute_query_schema_witness:
  "joiValidate limit_model ''limit'' = Some Joi_string \<and>
   JoiLimit \<noteq> Joi_string \<and>
   (\<exists>sch. validate_query (validate (config (findRoute widget_util limit_model))) = Some sch \<and>
          sch ''limit'' = Some JoiLimit \<and> sch ''title'' = Some Joi_string)"
  using findRoute_query_schema [of widget_util limit_model]
  by (simp add: limit_model_def JoiLimit_def joi_description_def joi_default_def joi_max_def
        joi_min_def joi_integer_def Joi_number_def Joi_string_def)

subsection \<open>Pagination\<close>

lemma JoiLimit_rules:
  "JoiLimit = \<lparr>base = NumberT, integerRule = True, minRule = Some 1, maxRule = Some 1000,
     defaultRule = Some (JNum 10), regexRule = None,
     descriptionRule = Some ''limit. min = 1, max = 1000''\<rparr>"
  by (simp add: JoiLimit_def joi_description_def joi_default_def joi_max_def joi_min_def
        joi_integer_def Joi_number_def)

lemma JoiOffset_rules:
  "JoiOffset = \<lparr>base = NumberT, integerRule = True, minRule = Some 0, maxRule = None,
     defaultRule = Some (JNum 0), regexRule = None,
     descriptionRule = Some ''offset. min = 0''\<rparr>"
  by (simp add: JoiOffset_def joi_description_def joi_default_def joi_min_def
        joi_integer_def Joi_number_def)

lemma list_query_schema:
  "validate_query (validate (config (listRoute U Model)))
     = Some [''limit'' \<mapsto> JoiLimit, ''offset'' \<mapsto> JoiOffset, ''fields'' \<mapsto> JoiFields]"
  by (simp add: listRoute_def Let_def)

lemma find_query_schema:
  "validate_query (validate (config (findRoute U Model)))
     = Some (assign Map.empty (joiValidate Model)
          [''limit'' \<mapsto> JoiLimit, ''offset'' \<mapsto> JoiOffset, ''fields'' \<mapsto> JoiFields])"
  by (simp add: findRoute_def Let_def)

lemma list_handler: "handler (listRoute U Model) = listHandler U Model"
  by (simp add: listRoute_def Let_def)

lemma find_handler: "handler (findRoute U Model) = findHandler U Model"
  by (simp add: findRoute_def Let_def)

text \<open>
  C5. In the list route and in the find route, the query schema declares \<open>limit\<close> as an
  integer number with minimum 1, maximum 1000 and default 10, and \<open>offset\<close> as an integer
  number with minimum 0, no maximum and default 0. A request that supplies neither reaches
  the handler with limit 10 and offset 0, and these are the limit and the skip of the
  handler's call on the store.
\<close>

theorem pagination_defaults:
  assumes "r = listRoute U Model \<or> r = findRoute U Model"
  shows "\<exists>sch. validate_query (validate (config r)) = Some sch \<and>
     sch ''limit'' = Some JoiLimit \<and> sch ''offset'' = Some JoiOffset \<and>
     base JoiLimit = NumberT \<and> integerRule JoiLimit \<and> minRule JoiLimit = Some 1 \<and>
     maxRule JoiLimit = Some 1000 \<and> defaultRule JoiLimit = Some (JNum 10) \<and>
     base JoiOffset = NumberT \<and> integerRule JoiOffset \<and> minRule JoiOffset = Some 0 \<and>
     maxRule JoiOffset = None \<and> defaultRule JoiOffset = Some (JNum 0) \<and>
     (query request ''limit'' = None \<and> query request ''offset'' = None \<longrightarrow>
        lookup (validated_query (config r) (query request)) ''limit'' = JNum 10 \<and>
        lookup (validated_query (config r) (query request)) ''offset'' = JNum 0 \<and>
        (\<forall>sel. getSelectObjFromFieldsInUrl U Model
                 (request\<lparr>query := validated_query (config r) (query request)\<rparr>) = Inr sel \<longrightarrow>
           (\<exists>flt. dispatch r request
                    = Inr (call_store Model (Find flt sel (JNum 10) (JNum 0))))))"
proof -
  have rules: "base JoiLimit = NumberT \<and> integerRule JoiLimit \<and> minRule JoiLimit = Some 1 \<and>
     maxRule JoiLimit = Some 1000 \<and> defaultRule JoiLimit = Some (JNum 10) \<and>
     base JoiOffset = NumberT \<and> integerRule JoiOffset \<and> minRule JoiOffset = Some 0 \<and>
     maxRule JoiOffset = None \<and> defaultRule JoiOffset = Some (JNum 0)"
    by (simp add: JoiLimit_rules JoiOffset_rules)
  from assms show ?thesis
  proof
    assume r: "r = listRoute U Model"
    show ?thesis
      unfolding r dispatch_def validated_query_def list_query_schema list_handler
      using rules
      by (auto simp: apply_defaults_def lookup_def listHandler_def)
  next
    assume r: "r = findRoute U Model"
    show ?thesis
      unfolding r dispatch_def validated_query_def find_query_schema find_handler
      using rules
      by (auto simp: apply_defaults_def lookup_def findHandler_def assign_def)
  qed
qed

text \<open>
  A list request with an empty query: the handler asks the store for 10 records from
  offset 0, with no projection.
\<close>

theorem pagination_defaults_witness:
  "lookup (validated_query (config (listRoute widget_util widget)) Map.empty) ''limit'' = JNum 10 \<and>
   lookup (validated_query (config (listRoute widget_util widget)) Map.empty) ''offset'' = JNum 0 \<and>
   (\<exists>flt. dispatch (listRoute widget_util widget)
            \<lparr>params = Map.empty, query = Map.empty, payload = Map.empty\<rparr>
          = Inr (call_store widget (Find flt Map.empty (JNum 10) (JNum 0))))"
proof -
  let ?rq = "\<lparr>params = Map.empty, query = Map.empty, payload = Map.empty\<rparr> :: obj request"
  have sel: "getSelectObjFromFieldsInUrl widget_util widget
      (?rq\<lparr>query := validated_query (config (listRoute widget_util widget)) (query ?rq)\<rparr>)
      = Inr Map.empty"
    by (simp add: validated_query_def list_query_schema apply_defaults_def JoiFields_def
          joi_description_def joi_default_def getSelectObjFromFieldsInUrl_def lodash_get_def
          lookup_def urlFields_of_def split_str_def)
  from pagination_defaults [of "listRoute widget_util widget" widget_util widget ?rq] sel
  show ?thesis by auto
qed

section \<open>Properties of the handlers\<close>

text \<open>The trace of the promise chain: one call, one reply, and the error logged.\<close>

lemma call_store_rejected:
  "store Model c = Inl err \<Longrightarrow> call_store Model c = [StoreCall c, Reply (Inl err), LoggerError err]"
  by (simp add: call_store_def then_reply_catch_def)

lemma call_store_fulfilled:
  "store Model c = Inr v \<Longrightarrow> call_store Model c = [StoreCall c, Reply (Inr v)]"
  by (simp add: call_store_def then_reply_catch_def)

lemma call_store_counts:
  "length (filter is_Reply (call_store Model c)) = 1 \<and>
   length (filter is_StoreCall (call_store Model c)) = 1"
  by (simp add: call_store_def then_reply_catch_def split: sum.splits)

text \<open>Each handler makes one call on the store and continues with the promise chain.\<close>

lemma handlers_call_store:
  assumes "lodash_get (query request) ''fields'' (JStr '''') = JStr s"
  shows "\<exists>c. postHandler Model request = Inr (call_store Model c)"
    and "\<exists>c. getHandler U Model request = Inr (call_store Model c)"
    and "\<exists>c. putHandler Model request = Inr (call_store Model c)"
    and "\<exists>c. deleteHandler Model request = Inr (call_store Model c)"
    and "\<exists>c. countHandler U Model request = Inr (call_store Model c)"
    and "\<exists>c. listHandler U Model request = Inr (call_store Model c)"
    and "\<exists>c. findHandler U Model request = Inr (call_store Model c)"
  by (simp_all add: postHandler_def getHandler_def putHandler_def deleteHandler_def
        countHandler_def listHandler_def findHandler_def select_string [OF assms])
    blast+

lemma restify_handlers:
  "map handler (restify U Model) =
     [postHandler Model, getHandler U Model, putHandler Model, deleteHandler Model,
      countHandler U Model, listHandler U Model, findHandler U Model]"
  by (simp add: restify_def postRoute_def getRoute_def putRoute_def deleteRoute_def
        countRoute_def listRoute_def findRoute_def Let_def)

text \<open>
  C6. The PUT handler makes one call on the store, \<open>findByIdAndUpdate\<close> with the path
  identifier, the payload and the option \<open>new\<close> set to true. On a store that follows the
  document-store contract and holds a record under that identifier, the handler replies
  with the record as it is stored after the update (the payload's fields written over the
  old record), where the option set to false would have given the record before it.
\<close>

theorem putHandler_returns_updated:
  "putHandler Model request =
     Inr (call_store Model
       (FindByIdAndUpdate (lookup (params request) ''id'') (payload request) \<lparr>new = True\<rparr>)) \<and>
   ((\<forall>ident data opts. store Model (FindByIdAndUpdate ident data opts)
        = Inr (fst (findByIdAndUpdate db ident data opts))) \<and>
    lookup (params request) ''id'' = JStr i \<and> db i = Some doc \<longrightarrow>
      putHandler Model request =
        Inr [StoreCall (FindByIdAndUpdate (JStr i) (payload request) \<lparr>new = True\<rparr>),
             Reply (Inr (Some (doc ++ payload request)))] \<and>
      snd (findByIdAndUpdate db (JStr i) (payload request) \<lparr>new = True\<rparr>) i
        = Some (doc ++ payload request) \<and>
      fst (findByIdAndUpdate db (JStr i) (payload request) \<lparr>new = False\<rparr>) = Some doc)"
  by (simp add: putHandler_def call_store_def then_reply_catch_def findByIdAndUpdate_def Let_def)

text \<open>
  A record with title Lamp and price 5, updated with price 7: the reply holds price 7
  and the title it had.
\<close>

theorem putHandler_returns_updated_witness:
  "(\<forall>ident data opts. store stored_widget (FindByIdAndUpdate ident data opts)
        = Inr (fst (findByIdAndUpdate widget_db ident data opts))) \<and>
   lookup (params put_request) ''id'' = JStr ''w1'' \<and>
   widget_db ''w1'' = Some [''title'' \<mapsto> JStr ''Lamp'', ''price'' \<mapsto> JNum 5] \<and>
   putHandler stored_widget put_request =
     Inr [StoreCall (FindByIdAndUpdate (JStr ''w1'') [''price'' \<mapsto> JNum 7] \<lparr>new = True\<rparr>),
          Reply (Inr (Some ([''title'' \<mapsto> JStr ''Lamp'', ''price'' \<mapsto> JNum 5]
                             ++ [''price'' \<mapsto> JNum 7])))] \<and>
   ([''title'' \<mapsto> JStr ''Lamp'', ''price'' \<mapsto> JNum 5] ++ [''price'' \<mapsto> JNum 7]) ''price''
     = Some (JNum 7) \<and>
   ([''title'' \<mapsto> JStr ''Lamp'', ''price'' \<mapsto> JNum 5] ++ [''price'' \<mapsto> JNum 7]) ''title''
     = Some (JStr ''Lamp'')"
proof -
  have h1: "\<forall>ident data opts. store stored_widget (FindByIdAndUpdate ident data opts)
        = Inr (fst (findByIdAndUpdate widget_db ident data opts))"
    by (simp add: stored_widget_def)
  have h2: "lookup (params put_request) ''id'' = JStr ''w1''"
    by (simp add: put_request_def lookup_def)
  have h3: "widget_db ''w1'' = Some [''title'' \<mapsto> JStr ''Lamp'', ''price'' \<mapsto> JNum 5]"
    by (simp add: widget_db_def)
  have h4: "payload put_request = [''price'' \<mapsto> JNum 7]"
    by (simp add: put_request_def)
  from putHandler_returns_updated [of stored_widget put_request widget_db "''w1''"
      "[''title'' \<mapsto> JStr ''Lamp'', ''price'' \<mapsto> JNum 5]"] h1 h2 h3
  have "putHandler stored_widget put_request =
     Inr [StoreCall (FindByIdAndUpdate (JStr ''w1'') (payload put_request) \<lparr>new = True\<rparr>),
          Reply (Inr (Some ([''title'' \<mapsto> JStr ''Lamp'', ''price'' \<mapsto> JNum 5]
                             ++ payload put_request)))]"
    by blast
  with h1 h2 h3 h4 show ?thesis by simp
qed

text \<open>
  C7. For a request whose \<open>fields\<close> parameter is a string or absent, every one of the
  seven handlers makes exactly one call on the store and calls \<open>reply\<close> exactly once.
  When the call fails, the trace is: the call, \<open>reply\<close> with the store's error, then
  \<open>logger.error\<close> with the same error. When it succeeds, the trace is the call and
  \<open>reply\<close> with the store's result.
\<close>

theorem handlers_forward_errors:
  assumes "lodash_get (query request) ''fields'' (JStr '''') = JStr s"
  shows "\<forall>r \<in> set (restify U Model).
    \<exists>c t. handler r request = Inr t \<and> t = call_store Model c \<and>
      length (filter is_Reply t) = 1 \<and>
      length (filter is_StoreCall t) = 1 \<and>
      (\<forall>err. store Model c = Inl err \<longrightarrow> t = [StoreCall c, Reply (Inl err), LoggerError err]) \<and>
      (\<forall>v. store Model c = Inr v \<longrightarrow> t = [StoreCall c, Reply (Inr v)])"
proof
  fix r
  assume "r \<in> set (restify U Model)"
  then have "handler r \<in> set (map handler (restify U Model))"
    by simp
  then have "\<exists>c. handler r request = Inr (call_store Model c)"
    unfolding restify_handlers
    using handlers_call_store [OF assms] by auto
  then obtain c where c: "handler r request = Inr (call_store Model c)" ..
  show "\<exists>c t. handler r request = Inr t \<and> t = call_store Model c \<and>
      length (filter is_Reply t) = 1 \<and>
      length (filter is_StoreCall t) = 1 \<and>
      (\<forall>err. store Model c = Inl err \<longrightarrow> t = [StoreCall c, Reply (Inl err), LoggerError err]) \<and>
      (\<forall>v. store Model c = Inr v \<longrightarrow> t = [StoreCall c, Reply (Inr v)])"
    using c call_store_counts [of Model c] call_store_rejected [of Model c]
      call_store_fulfilled [of Model c]
    by blast
qed

text \<open>
  The widget store rejects every call with the error "down": the find handler replies
  with that error and logs it.
\<close>

theorem handlers_forward_errors_witness:
  "lodash_get (query (fields_request ''title'')) ''fields'' (JStr '''') = JStr ''title'' \<and>
   findRoute widget_util widget \<in> set (restify widget_util widget) \<and>
   (\<exists>c. handler (findRoute widget_util widget) (fields_request ''title'')
          = Inr [StoreCall c, Reply (Inl ''down''), LoggerError ''down''])"
proof -
  have h: "lodash_get (query (fields_request ''title'')) ''fields'' (JStr '''') = JStr ''title''"
    by (rule fields_request_get)
  have mem: "findRoute widget_util widget \<in> set (restify widget_util widget)"
    by (simp add: restify_def)
  have down: "store widget c = Inl ''down''" for c
    by (simp add: widget_def)
  from handlers_forward_errors [OF h, of widget_util widget] mem
  obtain c t where "handler (findRoute widget_util widget) (fields_request ''title'') = Inr t"
    and "store widget c = Inl ''down'' \<longrightarrow> t = [StoreCall c, Reply (Inl ''down''), LoggerError ''down'']"
    by blast
  with down have "handler (findRoute widget_util widget) (fields_request ''title'')
      = Inr [StoreCall c, Reply (Inl ''down''), LoggerError ''down'']"
    by simp
  with h mem show ?thesis by blast
qed

end
